theory Spec2Isabelle
  imports Main "HOL-Library.Word"
begin

section \<open>Bytes, big-endian integers and the Go built-ins the router uses\<close>

text \<open>
  A Go byte is an 8-bit word; a slice, and a fixed-size array such as
  \<^verbatim>\<open>common.Address\<close> (20 bytes) or \<^verbatim>\<open>common.Hash\<close> (32 bytes), is a list of bytes.
  The zero value of an array of \<open>n\<close> bytes is \<open>replicate n 0\<close>.
\<close>

type_synonym byte = "8 word"
type_synonym bytes = "byte list"

text \<open>
  Go's built-in \<^verbatim>\<open>copy(dst, src)\<close> overwrites the first \<open>min (len dst) (len src)\<close>
  elements of \<open>dst\<close> and leaves the rest of \<open>dst\<close> as it was.
\<close>

definition copy_bytes :: "bytes \<Rightarrow> bytes \<Rightarrow> bytes" where
  "copy_bytes dst src = take (length dst) src @ drop (length src) dst"

text \<open>The \<open>n\<close> low-order base-256 digits of \<open>v\<close>, most significant first.\<close>

fun be_bytes :: "nat \<Rightarrow> nat \<Rightarrow> bytes" where
  "be_bytes 0 v = []"
| "be_bytes (Suc n) v = be_bytes n (v div 256) @ [word_of_nat (v mod 256)]"

text \<open>
  The value of a big-endian byte string: \<^verbatim>\<open>big.Int.SetBytes\<close>, \<^verbatim>\<open>common.Hash.Big\<close>,
  \<^verbatim>\<open>binary.BigEndian.Uint64\<close> and \<^verbatim>\<open>Uint32\<close> all read their argument this way.
\<close>

definition be_nat :: "bytes \<Rightarrow> nat" where
  "be_nat bs = foldl (\<lambda>acc b. acc * 256 + unat b) 0 bs"

text \<open>\<^verbatim>\<open>b[lo:hi]\<close> for \<open>lo \<le> hi \<le> len b\<close> (every use in the router has constant, in-range bounds).\<close>

definition slice :: "bytes \<Rightarrow> nat \<Rightarrow> nat \<Rightarrow> bytes" where
  "slice b lo hi = take (hi - lo) (drop lo b)"

text \<open>Writing \<open>src\<close> into \<open>buf\<close> at offset \<open>lo\<close>, as a \<^verbatim>\<open>Put\<close> on \<^verbatim>\<open>buf[lo:lo+len src]\<close> does.\<close>

definition put_at :: "bytes \<Rightarrow> nat \<Rightarrow> bytes \<Rightarrow> bytes" where
  "put_at buf lo src = take lo buf @ src @ drop (lo + length src) buf"

definition PutUint64 :: "bytes \<Rightarrow> nat \<Rightarrow> 64 word \<Rightarrow> bytes" where
  "PutUint64 buf lo v = put_at buf lo (be_bytes 8 (unat v))"

definition PutUint32 :: "bytes \<Rightarrow> nat \<Rightarrow> 32 word \<Rightarrow> bytes" where
  "PutUint32 buf lo v = put_at buf lo (be_bytes 4 (unat v))"

definition Uint64 :: "bytes \<Rightarrow> 64 word" where
  "Uint64 b = word_of_nat (be_nat b)"

definition Uint32 :: "bytes \<Rightarrow> 32 word" where
  "Uint32 b = word_of_nat (be_nat b)"

subsection \<open>Panics and errors\<close>

text \<open>
  A Go function of the router either returns, returns an error value, or panics.
  A panic unwinds through every caller, so it is an error of its own kind.
\<close>

datatype panic =
    NilPointerDereference
  | BufferTooSmall
  | SliceBoundsOutOfRange
  | ReflectTypeOfZeroValue
  | CouldNotEncode

datatype error =
    Panic panic
  | Err string
  | UnexpectedAddress bytes bytes
  | UnexpectedHash bytes bytes

text \<open>Sequencing: the first error or panic ends the computation.\<close>

definition bnd :: "error + 'a \<Rightarrow> ('a \<Rightarrow> error + 'b) \<Rightarrow> error + 'b" where
  "bnd m f = (case m of Inl e \<Rightarrow> Inl e | Inr x \<Rightarrow> f x)"

text \<open>Dereferencing a Go pointer: \<open>None\<close> is \<^verbatim>\<open>nil\<close>.\<close>

definition deref :: "'a option \<Rightarrow> error + 'a" where
  "deref p = (case p of None \<Rightarrow> Inl (Panic NilPointerDereference) | Some x \<Rightarrow> Inr x)"

text \<open>
  \<^verbatim>\<open>x.FillBytes(buf)\<close> of \<^verbatim>\<open>math/big\<close>, for a buffer of \<open>n\<close> bytes: the absolute value
  of \<open>x\<close>, big-endian and zero-extended to \<open>n\<close> bytes; it panics when the value does not fit.
\<close>

definition FillBytes :: "int \<Rightarrow> nat \<Rightarrow> error + bytes" where
  "FillBytes x n =
     (if nat \<bar>x\<bar> < 256 ^ n then Inr (be_bytes n (nat \<bar>x\<bar>))
      else Inl (Panic BufferTooSmall))"

text \<open>\<^verbatim>\<open>z.SetBytes(buf)\<close>: the unsigned big-endian value of \<open>buf\<close>.\<close>

definition SetBytes :: "bytes \<Rightarrow> int" where
  "SetBytes buf = int (be_nat buf)"

subsection \<open>Keccak-256\<close>

text \<open>
  The hash function is a library of its own (\<^verbatim>\<open>golang.org/x/crypto/sha3\<close>); every
  definition that hashes takes it as the parameter \<open>H\<close>, the digest read as a 256-bit
  number. \<open>Sum256 H data\<close> is the 32-byte digest \<^verbatim>\<open>h.Sum(nil)\<close> after \<^verbatim>\<open>h.Write(data)\<close>
  on a fresh or reset state.
\<close>

type_synonym keccak = "bytes \<Rightarrow> 256 word"

definition Sum256 :: "keccak \<Rightarrow> bytes \<Rightarrow> bytes" where
  "Sum256 H data = be_bytes 32 (unat (H data))"

section \<open>The cross-shard receipt and the outgoing message\<close>

text \<open>
  \<^verbatim>\<open>types.CXReceipt\<close> as the router uses it. \<^verbatim>\<open>RunWriteCapable\<close> fills \<open>From\<close> with the
  value \<^verbatim>\<open>contract.Caller()\<close> and \<open>To\<close> with the pointer \<^verbatim>\<open>&router.messageSend.to\<close>, and
  \<open>Amount\<close>, \<open>GasPrice\<close> and \<open>GasBudget\<close> with values of type \<^verbatim>\<open>*big.Int\<close>: these four
  fields are pointers, \<open>None\<close> when \<^verbatim>\<open>nil\<close>.
\<close>

record CXReceipt =
  From :: bytes
  To :: "bytes option"
  ShardID :: "32 word"
  ToShardID :: "32 word"
  Amount :: "int option"
  Nonce :: "64 word"
  Payload :: bytes
  GasPrice :: "int option"
  GasBudget :: "int option"
  GasLeftoverTo :: bytes
  GasLimit :: "64 word"

text \<open>The zero value \<^verbatim>\<open>types.CXReceipt{}\<close>: zero arrays and numbers, nil pointers and slice.\<close>

definition CXReceipt_zero :: CXReceipt where
  "CXReceipt_zero =
     \<lparr>From = replicate 20 0, To = None, ShardID = 0, ToShardID = 0, Amount = None,
      Nonce = 0, Payload = [], GasPrice = None, GasBudget = None,
      GasLeftoverTo = replicate 20 0, GasLimit = 0\<rparr>"

record OutgoingMessage =
  cxReceipt :: CXReceipt
  msgAddress :: bytes
  payloadHash :: bytes

text \<open>
  \<^verbatim>\<open>CalculateAddressAndPayloadHash\<close> (storage.go, lines 54 to 73). \<^verbatim>\<open>To[:]\<close> dereferences
  the pointer \<open>To\<close>, and \<^verbatim>\<open>Amount.FillBytes\<close> the pointer \<open>Amount\<close>.
\<close>

definition CalculateAddressAndPayloadHash ::
    "keccak \<Rightarrow> OutgoingMessage \<Rightarrow> error + (bytes \<times> bytes)" where
  "CalculateAddressAndPayloadHash H outgoingMessage =
     (let r = cxReceipt outgoingMessage;
          payloadHash = copy_bytes (replicate 32 0) (Sum256 H (Payload r))
      in bnd (deref (To r)) (\<lambda>to.
         bnd (deref (Amount r)) (\<lambda>amount.
         bnd (FillBytes amount 32) (\<lambda>valBytes.
           let written = [0xff] @ From r @ to @ be_bytes 4 (unat (ShardID r))
                 @ be_bytes 4 (unat (ToShardID r)) @ payloadHash @ valBytes
                 @ be_bytes 8 (unat (Nonce r));
               msgAddr = copy_bytes (replicate 20 0) (drop 12 (Sum256 H written))
           in Inr (msgAddr, payloadHash)))))"

definition NewOutgoingMessage :: "keccak \<Rightarrow> CXReceipt \<Rightarrow> error + OutgoingMessage" where
  "NewOutgoingMessage H r =
     bnd (CalculateAddressAndPayloadHash H
            \<lparr>cxReceipt = r, msgAddress = replicate 20 0, payloadHash = replicate 32 0\<rparr>)
       (\<lambda>(a, h). Inr \<lparr>cxReceipt = r, msgAddress = a, payloadHash = h\<rparr>)"

text \<open>
  \<^verbatim>\<open>wordAddr\<close> (storage.go, lines 77 to 86): the storage key of the \<open>n\<close>-th header word.
\<close>

definition wordAddr :: "OutgoingMessage \<Rightarrow> byte \<Rightarrow> bytes" where
  "wordAddr outgoingMessage n =
     (let ret = replicate 32 0;
          ret = copy_bytes ret (msgAddress outgoingMessage);
          ret = ret[20 := 0x01];
          ret = ret[31 := n]
      in ret)"

section \<open>The state database\<close>

text \<open>
  \<^verbatim>\<open>vm.StateDB\<close> is an interface the router is handed; the router calls \<^verbatim>\<open>GetState\<close>,
  \<^verbatim>\<open>SetState\<close> and \<^verbatim>\<open>GetCrossShardNonce\<close>. The model keeps the storage of every account
  (a 32-byte value for each 32-byte key) and, so that writes can be counted, the list of
  \<^verbatim>\<open>SetState\<close> calls made so far, oldest first.
\<close>

record StateDB =
  storage :: "bytes \<Rightarrow> bytes \<Rightarrow> bytes"
  journal :: "(bytes \<times> bytes \<times> bytes) list"
  crossShardNonce :: "bytes \<Rightarrow> 64 word"

definition GetState :: "StateDB \<Rightarrow> bytes \<Rightarrow> bytes \<Rightarrow> bytes" where
  "GetState db addr key = storage db addr key"

definition SetState :: "StateDB \<Rightarrow> bytes \<Rightarrow> bytes \<Rightarrow> bytes \<Rightarrow> StateDB" where
  "SetState db addr key val =
     db\<lparr>storage := (storage db)(addr := (storage db addr)(key := val)),
        journal := journal db @ [(addr, key, val)]\<rparr>"

definition GetCrossShardNonce :: "StateDB \<Rightarrow> bytes \<Rightarrow> 64 word" where
  "GetCrossShardNonce db addr = crossShardNonce db addr"

text \<open>\<^verbatim>\<open>RouterAddress = common.BytesToAddress([]byte{248})\<close>: 19 zero bytes, then 248.\<close>

definition RouterAddress :: bytes where
  "RouterAddress = replicate 19 0 @ [248]"

section \<open>Storing and loading a message\<close>

text \<open>\<^verbatim>\<open>copy(buf[lo:hi], src)\<close>: the copy lands in the region \<open>lo..hi\<close> of \<open>buf\<close>.\<close>

definition copy_into :: "bytes \<Rightarrow> nat \<Rightarrow> nat \<Rightarrow> bytes \<Rightarrow> bytes" where
  "copy_into buf lo hi src = put_at buf lo (copy_bytes (slice buf lo hi) src)"

text \<open>\<^verbatim>\<open>payloadHash.Big()\<close>: the hash as an unsigned big integer.\<close>

definition Big :: "bytes \<Rightarrow> int" where
  "Big h = int (be_nat h)"

text \<open>
  The loop of \<^verbatim>\<open>storePayload\<close> (storage.go, lines 137 to 148). A word of fewer than 32
  bytes is the last one; after a full word the key becomes the next integer, written
  back into the 32-byte key by \<^verbatim>\<open>FillBytes\<close>.
\<close>

function storePayload_loop :: "int \<Rightarrow> bytes \<Rightarrow> bytes \<Rightarrow> StateDB \<Rightarrow> error + StateDB" where
  "storePayload_loop offset key data db =
     (if length data > 0 then
        let val = copy_bytes (replicate 32 0) data;
            db = SetState db RouterAddress key val
        in if length data < 32 then Inr db
           else (case FillBytes (offset + 1) 32 of
                   Inl e \<Rightarrow> Inl e
                 | Inr key \<Rightarrow> storePayload_loop (offset + 1) key (drop 32 data) db)
      else Inr db)"
  by pat_completeness auto
termination
  by (relation "measure (\<lambda>(offset, key, data, db). length data)") auto

definition storePayload :: "OutgoingMessage \<Rightarrow> StateDB \<Rightarrow> error + StateDB" where
  "storePayload outgoingMessage db =
     (let offset = Big (payloadHash outgoingMessage);
          key = payloadHash outgoingMessage;
          data = copy_bytes (replicate (length (Payload (cxReceipt outgoingMessage))) 0)
                   (Payload (cxReceipt outgoingMessage))
      in storePayload_loop offset key data db)"

text \<open>\<^verbatim>\<open>StoreMessage\<close> (storage.go, lines 88 to 130).\<close>

definition StoreMessage :: "OutgoingMessage \<Rightarrow> StateDB \<Rightarrow> error + StateDB" where
  "StoreMessage outgoingMessage db =
     (let r = cxReceipt outgoingMessage;
          buf = replicate 32 0;
          buf = copy_into buf 0 20 (From r);
          buf = PutUint64 buf 20 (GasLimit r);
          db = SetState db RouterAddress (wordAddr outgoingMessage 0) buf;
          buf = replicate 32 0
      in bnd (deref (To r)) (\<lambda>to.
          let buf = copy_into buf 0 20 to;
              buf = PutUint64 buf 20 (Nonce r);
              buf = PutUint32 buf 28 (ToShardID r);
              db = SetState db RouterAddress (wordAddr outgoingMessage 1) buf;
              buf = replicate 32 0;
              buf = copy_into buf 0 20 (GasLeftoverTo r);
              buf = PutUint64 buf 20 (word_of_nat (length (Payload r)));
              db = SetState db RouterAddress (wordAddr outgoingMessage 2) buf
          in bnd (deref (Amount r)) (\<lambda>amount.
             bnd (FillBytes amount 32) (\<lambda>buf.
          let db = SetState db RouterAddress (wordAddr outgoingMessage 3) buf
          in bnd (deref (GasBudget r)) (\<lambda>gasBudget.
             bnd (FillBytes gasBudget 32) (\<lambda>buf.
          let db = SetState db RouterAddress (wordAddr outgoingMessage 4) buf
          in bnd (deref (GasPrice r)) (\<lambda>gasPrice.
             bnd (FillBytes gasPrice 32) (\<lambda>buf.
          let db = SetState db RouterAddress (wordAddr outgoingMessage 5) buf;
              buf = replicate 32 0;
              buf = copy_bytes buf (payloadHash outgoingMessage);
              db = SetState db RouterAddress (wordAddr outgoingMessage 6) buf
          in storePayload outgoingMessage db))))))))"

text \<open>
  The loop of \<^verbatim>\<open>loadPayload\<close> (storage.go, lines 218 to 228): \<open>buf\<close> is the part of the
  result still to fill, \<open>filled\<close> the part before it.
\<close>

function loadPayload_loop :: "int \<Rightarrow> bytes \<Rightarrow> bytes \<Rightarrow> bytes \<Rightarrow> StateDB \<Rightarrow> error + bytes" where
  "loadPayload_loop offset key filled buf db =
     (if length buf > 0 then
        let word = GetState db RouterAddress key;
            buf = copy_bytes buf word
        in if length buf < 32 then Inr (filled @ buf)
           else (case FillBytes (offset + 1) 32 of
                   Inl e \<Rightarrow> Inl e
                 | Inr key \<Rightarrow>
                     loadPayload_loop (offset + 1) key (filled @ take 32 buf) (drop 32 buf) db)
      else Inr filled)"
  by pat_completeness auto
termination
  by (relation "measure (\<lambda>(offset, key, filled, buf, db). length buf)")
    (auto simp add: copy_bytes_def)

definition loadPayload :: "OutgoingMessage \<Rightarrow> StateDB \<Rightarrow> 64 word \<Rightarrow> error + OutgoingMessage" where
  "loadPayload outgoingMessage db payloadLength =
     (let ret = replicate (unat payloadLength) 0;
          offset = Big (payloadHash outgoingMessage);
          key = payloadHash outgoingMessage
      in bnd (loadPayload_loop offset key [] ret db) (\<lambda>ret.
           Inr (outgoingMessage\<lparr>cxReceipt := (cxReceipt outgoingMessage)\<lparr>Payload := ret\<rparr>\<rparr>)))"

text \<open>
  \<^verbatim>\<open>LoadMessage\<close> (storage.go, lines 151 to 211). The receipt it fills is the zero value
  \<^verbatim>\<open>&types.CXReceipt{}\<close>. \<^verbatim>\<open>copy(cxReceipt.To[:], buf[:20])\<close> slices the array behind
  the pointer \<open>To\<close>, and \<^verbatim>\<open>Amount.SetBytes\<close>, \<^verbatim>\<open>GasBudget.SetBytes\<close> and
  \<^verbatim>\<open>GasPrice.SetBytes\<close> write through their receivers: each is a dereference.
  The two verification errors carry the computed value first and the expected value
  second; the Go code renders both with \<^verbatim>\<open>Hex()\<close>.
\<close>

definition LoadMessage :: "keccak \<Rightarrow> bytes \<Rightarrow> StateDB \<Rightarrow> error + OutgoingMessage" where
  "LoadMessage H msgAddr db =
     (let outgoingMessage =
            \<lparr>cxReceipt = CXReceipt_zero, msgAddress = msgAddr, payloadHash = replicate 32 0\<rparr>;
          r = cxReceipt outgoingMessage;
          buf = GetState db RouterAddress (wordAddr outgoingMessage 0);
          r = r\<lparr>From := copy_bytes (From r) (slice buf 0 20)\<rparr>;
          r = r\<lparr>GasLimit := Uint64 (slice buf 20 28)\<rparr>;
          buf = GetState db RouterAddress (wordAddr outgoingMessage 1)
      in bnd (deref (To r)) (\<lambda>to.
          let r = r\<lparr>To := Some (copy_bytes to (slice buf 0 20))\<rparr>;
              r = r\<lparr>Nonce := Uint64 (slice buf 20 28)\<rparr>;
              r = r\<lparr>ToShardID := Uint32 (slice buf 28 32)\<rparr>;
              buf = GetState db RouterAddress (wordAddr outgoingMessage 2);
              r = r\<lparr>GasLeftoverTo := copy_bytes (GasLeftoverTo r) (slice buf 0 20)\<rparr>;
              payloadLength = Uint64 (slice buf 20 28);
              buf = GetState db RouterAddress (wordAddr outgoingMessage 3)
          in bnd (deref (Amount r)) (\<lambda>_.
          let r = r\<lparr>Amount := Some (SetBytes buf)\<rparr>;
              buf = GetState db RouterAddress (wordAddr outgoingMessage 4)
          in bnd (deref (GasBudget r)) (\<lambda>_.
          let r = r\<lparr>GasBudget := Some (SetBytes buf)\<rparr>;
              buf = GetState db RouterAddress (wordAddr outgoingMessage 5)
          in bnd (deref (GasPrice r)) (\<lambda>_.
          let r = r\<lparr>GasPrice := Some (SetBytes buf)\<rparr>;
              outgoingMessage = outgoingMessage
                \<lparr>cxReceipt := r,
                 payloadHash := GetState db RouterAddress (wordAddr outgoingMessage 6)\<rparr>
          in bnd (loadPayload outgoingMessage db payloadLength) (\<lambda>outgoingMessage.
             bnd (CalculateAddressAndPayloadHash H outgoingMessage)
               (\<lambda>(calculatedAddress, calculatedHash).
                if msgAddress outgoingMessage \<noteq> calculatedAddress
                then Inl (UnexpectedAddress calculatedAddress (msgAddress outgoingMessage))
                else if payloadHash outgoingMessage \<noteq> calculatedHash
                then Inl (UnexpectedHash calculatedHash (payloadHash outgoingMessage))
                else Inr outgoingMessage)))))))"

section \<open>Parsing a call\<close>

text \<open>
  The two parsed shapes of parse.go. The fields of \<^verbatim>\<open>routerMessageRetrySend\<close> that share a
  name with a field of \<^verbatim>\<open>routerMessageSend\<close> carry the prefix \<open>retry_\<close>.
\<close>

record routerMessageSend =
  to :: bytes
  toShard :: "32 word"
  payload :: bytes
  gasPrice :: "int option"
  gasBudget :: "int option"
  gasLimit :: "64 word"
  gasLeftoverTo :: bytes

record routerMessageRetrySend =
  msgAddr :: bytes
  retry_gasLimit :: "64 word"
  retry_gasPrice :: "int option"

text \<open>
  What \<^verbatim>\<open>parseMethod\<close> returns in its \<^verbatim>\<open>interface{}\<close>: a pointer to one of the two
  shapes; the nil interface is \<open>None\<close>.
\<close>

datatype message =
    MessageSend routerMessageSend
  | MessageRetrySend routerMessageRetrySend

text \<open>
  The ABI decoder (package \<^verbatim>\<open>accounts/abi\<close>) is a collaborator: \<^verbatim>\<open>parseMethod\<close> calls
  these functions of it and knows nothing else about the encoding. \<open>'m\<close> is the type
  of a method of the schema, \<open>'a\<close> that of the map of unpacked arguments.
\<close>

record ('m, 'a) ABI =
  MethodById :: "bytes \<Rightarrow> error + 'm"
  Name :: "'m \<Rightarrow> string"
  UnpackIntoMap :: "'m \<Rightarrow> bytes \<Rightarrow> error + 'a"
  ParseAddressFromKey :: "'a \<Rightarrow> string \<Rightarrow> error + bytes"
  ParseUint32FromKey :: "'a \<Rightarrow> string \<Rightarrow> error + 32 word"
  ParseBytesFromKey :: "'a \<Rightarrow> string \<Rightarrow> error + bytes"
  ParseBigIntFromKey :: "'a \<Rightarrow> string \<Rightarrow> error + int option"
  ParseUint64FromKey :: "'a \<Rightarrow> string \<Rightarrow> error + 64 word"

text \<open>
  \<^verbatim>\<open>parseMethod\<close> (parse.go, lines 119 to 196). \<^verbatim>\<open>input[4:]\<close> panics on an input of
  fewer than four bytes.
\<close>

definition parseMethod :: "('m, 'a) ABI \<Rightarrow> bytes \<Rightarrow> error + message option" where
  "parseMethod abi input =
     bnd (MethodById abi input) (\<lambda>method.
     bnd (if length input < 4 then Inl (Panic SliceBoundsOutOfRange)
          else Inr (drop 4 input)) (\<lambda>input.
     bnd (UnpackIntoMap abi method input) (\<lambda>args.
       if Name abi method = ''send'' then
         bnd (ParseAddressFromKey abi args ''to_'') (\<lambda>to.
         bnd (ParseUint32FromKey abi args ''toShard'') (\<lambda>toShard.
         bnd (ParseBytesFromKey abi args ''payload'') (\<lambda>payload.
         bnd (ParseBigIntFromKey abi args ''gasPrice'') (\<lambda>gasPrice.
         bnd (ParseUint64FromKey abi args ''gasLimit'') (\<lambda>gasLimit.
         bnd (ParseBigIntFromKey abi args ''gasBudget'') (\<lambda>gasBudget.
         bnd (ParseAddressFromKey abi args ''gasLeftoverTo'') (\<lambda>gasLeftoverTo.
           Inr (Some (MessageSend
             \<lparr>to = to, toShard = toShard, payload = payload, gasPrice = gasPrice,
              gasBudget = gasBudget, gasLimit = gasLimit,
              gasLeftoverTo = gasLeftoverTo\<rparr>)))))))))
       else if Name abi method = ''retrySend'' then
         bnd (ParseAddressFromKey abi args ''msgAddr'') (\<lambda>msgAddr.
         bnd (ParseBigIntFromKey abi args ''gasPrice'') (\<lambda>gasPrice.
         bnd (ParseUint64FromKey abi args ''gasLimit'') (\<lambda>gasLimit.
           Inr (Some (MessageRetrySend
             \<lparr>msgAddr = msgAddr, retry_gasLimit = gasLimit, retry_gasPrice = gasPrice\<rparr>)))))
       else Inl (Err ''unknown method name''))))"

section \<open>The router\<close>

record Router =
  message :: "message option"
  messageSend :: "routerMessageSend option"
  messageRetrySend :: "routerMessageRetrySend option"

text \<open>What the router reads of the calling contract frame.\<close>

record Contract =
  Caller :: bytes
  Value :: "int option"

text \<open>
  What the router reads and changes of \<^verbatim>\<open>vm.EVM\<close>: the shard, the state database, the two
  chain-configuration answers \<^verbatim>\<open>ChainConfig().IsS3(EpochNumber)\<close> and
  \<^verbatim>\<open>ChainConfig().IsIstanbul(EpochNumber)\<close>, and the receipts emitted so far.
\<close>

record EVM =
  evm_ShardID :: "32 word"
  evm_StateDB :: StateDB
  IsS3 :: bool
  IsIstanbul :: bool
  CXReceipts :: "CXReceipt list"

text \<open>
  \<^verbatim>\<open>rlp.EncodeToBytes\<close> is a library function. It begins by asking for the type of
  \<^verbatim>\<open>reflect.ValueOf(val)\<close>, which panics when \<open>val\<close> is the nil interface: the
  reflected value of nil is the zero value, which has no type. How a value that is
  not nil is encoded is the library's business, the parameter \<open>encode\<close>.
\<close>

definition EncodeToBytes :: "(message \<Rightarrow> error + bytes) \<Rightarrow> message option \<Rightarrow> error + bytes" where
  "EncodeToBytes encode val =
     (case val of None \<Rightarrow> Inl (Panic ReflectTypeOfZeroValue) | Some v \<Rightarrow> encode v)"

text \<open>
  \<^verbatim>\<open>RequiredGas\<close> (main.go, lines 25 to 66). The intrinsic-gas formula and the
  constant \<^verbatim>\<open>params.SstoreSetGas\<close> are collaborators, taken as parameters. The result
  comes with the router, whose fields the call sets. The multiplication is that of
  \<^verbatim>\<open>uint64\<close>. \<^verbatim>\<open>parseMethod\<close> returns nil with every error, so on the error path
  \<^verbatim>\<open>router.message\<close> is nil when it is encoded.
\<close>

definition RequiredGas ::
    "('m, 'a) ABI \<Rightarrow> (message \<Rightarrow> error + bytes)
     \<Rightarrow> (bytes \<Rightarrow> bool \<Rightarrow> bool \<Rightarrow> bool \<Rightarrow> bool \<Rightarrow> error + 64 word) \<Rightarrow> 64 word
     \<Rightarrow> Router \<Rightarrow> EVM \<Rightarrow> Contract \<Rightarrow> bytes \<Rightarrow> (error + 64 word) \<times> Router" where
  "RequiredGas abi encode IntrinsicGas SstoreSetGas router evm contract input =
     (case parseMethod abi input of
        Inl (Panic p) \<Rightarrow> (Inl (Panic p), router)
      | Inl err \<Rightarrow>
          (let router = router\<lparr>message := None\<rparr>
           in case EncodeToBytes encode (message router) of
                Inl (Panic p) \<Rightarrow> (Inl (Panic p), router)
              | Inl err \<Rightarrow> (Inl (Panic CouldNotEncode), router)
              | Inr encoded \<Rightarrow>
                  (case IntrinsicGas encoded False (IsS3 evm) (IsIstanbul evm) False of
                     Inl err \<Rightarrow> (Inl err, router)
                   | Inr gas \<Rightarrow> (Inr gas, router)))
      | Inr m \<Rightarrow>
          (let router = router\<lparr>message := m\<rparr>
           in case m of
                Some (MessageSend ms) \<Rightarrow>
                  (Inr (SstoreSetGas * word_of_nat (length (payload ms))),
                   router\<lparr>messageSend := Some ms\<rparr>)
              | Some (MessageRetrySend mr) \<Rightarrow>
                  (Inr (3 * SstoreSetGas), router\<lparr>messageRetrySend := Some mr\<rparr>)
              | None \<Rightarrow> (Inl (Err ''invalid parsed object''), router)))"

text \<open>
  \<^verbatim>\<open>RunWriteCapable\<close> (main.go, lines 68 to 116). \<^verbatim>\<open>evm.EmitCXReceipt\<close> is a
  collaborator, taken as a parameter. The result comes with the EVM as the call left
  it. On the retry path \<^verbatim>\<open>router.messageRetrySend.msgAddr\<close> dereferences
  \<^verbatim>\<open>router.messageRetrySend\<close>.
\<close>

definition RunWriteCapable ::
    "keccak \<Rightarrow> (EVM \<Rightarrow> CXReceipt \<Rightarrow> error + EVM)
     \<Rightarrow> Router \<Rightarrow> EVM \<Rightarrow> Contract \<Rightarrow> bytes \<Rightarrow> (error + bytes) \<times> EVM" where
  "RunWriteCapable H EmitCXReceipt router evm contract input =
     (case messageSend router of
        Some ms \<Rightarrow>
          (let receipt =
                 \<lparr>From = Caller contract, To = Some (to ms), ShardID = evm_ShardID evm,
                  ToShardID = toShard ms, Amount = Value contract,
                  Nonce = GetCrossShardNonce (evm_StateDB evm) (Caller contract),
                  Payload = payload ms, GasPrice = gasPrice ms, GasBudget = gasBudget ms,
                  GasLeftoverTo = gasLeftoverTo ms, GasLimit = gasLimit ms\<rparr>
           in case NewOutgoingMessage H receipt of
                Inl e \<Rightarrow> (Inl e, evm)
              | Inr outgoingMessage \<Rightarrow>
                  (case StoreMessage outgoingMessage (evm_StateDB evm) of
                     Inl e \<Rightarrow> (Inl e, evm)
                   | Inr db \<Rightarrow>
                       (let evm = evm\<lparr>evm_StateDB := db\<rparr>
                        in case EmitCXReceipt evm receipt of
                             Inl err \<Rightarrow> (Inl err, evm)
                           | Inr evm \<Rightarrow> (Inr (msgAddress outgoingMessage), evm))))
      | None \<Rightarrow>
          (case deref (messageRetrySend router) of
             Inl e \<Rightarrow> (Inl e, evm)
           | Inr mr \<Rightarrow>
               (case LoadMessage H (msgAddr mr) (evm_StateDB evm) of
                  Inl err \<Rightarrow> (Inl err, evm)
                | Inr outgoingMessage \<Rightarrow>
                    (let receipt = (cxReceipt outgoingMessage)
                           \<lparr>GasPrice := retry_gasPrice mr, GasLimit := retry_gasLimit mr\<rparr>
                     in case EmitCXReceipt evm receipt of
                          Inl err \<Rightarrow> (Inl err, evm)
                        | Inr evm \<Rightarrow> (Inr (msgAddress outgoingMessage), evm)))))"

section \<open>The delegation lockup engine\<close>

text \<open>
  Modelled from the spec: the records \<^verbatim>\<open>Delegation\<close> and \<^verbatim>\<open>Undelegation\<close> and the
  errors of the lockup engine (package \<^verbatim>\<open>staking/types\<close>), whose code is missing; the
  sources hold its tests only. The operations of this section follow the
  specification, and the tests are replayed against them below. Amounts and epochs
  are \<^verbatim>\<open>*big.Int\<close> in the tests, so they are integers here.
\<close>

record Undelegation =
  Undelegation_Amount :: int
  Epoch :: int

record Delegation =
  DelegatorAddress :: bytes
  Delegation_Amount :: int
  Reward :: int
  Undelegations :: "Undelegation list"

datatype lockup_error =
    InvalidAmount
  | RemainingBelowMinimum string

text \<open>
  Modelled from the spec: \<^verbatim>\<open>NewDelegation\<close>, whose code is missing. A delegation is
  created with the delegator, the amount and no undelegations.
\<close>

definition NewDelegation :: "bytes \<Rightarrow> int \<Rightarrow> Delegation" where
  "NewDelegation delegator amount =
     \<lparr>DelegatorAddress = delegator, Delegation_Amount = amount, Reward = 0,
      Undelegations = []\<rparr>"

text \<open>
  Modelled from the spec: the decimal rendering of an integer in the error message
  (the formatting code is missing); a minus sign and then the digits, without leading
  zeros.
\<close>

definition digit_char :: "nat \<Rightarrow> char" where
  "digit_char d = ''0123456789'' ! d"

function decimal_nat :: "nat \<Rightarrow> string" where
  "decimal_nat n =
     (if n < 10 then [digit_char n] else decimal_nat (n div 10) @ [digit_char (n mod 10)])"
  by pat_completeness auto
termination
  by (relation "measure (\<lambda>n. n)") auto

definition decimal :: "int \<Rightarrow> string" where
  "decimal i = (if i < 0 then CHR ''-'' # decimal_nat (nat (- i)) else decimal_nat (nat i))"

text \<open>
  Modelled from the spec: \<^verbatim>\<open>Delegation.Undelegate\<close>, whose code is missing. It
  validates \<open>amount > 0\<close> and \<open>amount \<le> delegation.amount\<close>; if a minimum is provided
  and \<open>0 < delegation.amount - amount < minRemaining\<close> it fails with the message of
  section 6 of the specification; otherwise it subtracts the amount and appends a new
  entry, also for an epoch that already has one.
\<close>

definition Undelegate ::
    "Delegation \<Rightarrow> int \<Rightarrow> int \<Rightarrow> int option \<Rightarrow> lockup_error + Delegation" where
  "Undelegate d epoch amount minRemaining =
     (if amount \<le> 0 \<or> Delegation_Amount d < amount then Inl InvalidAmount
      else
        let remaining = Delegation_Amount d - amount;
            done = d\<lparr>Delegation_Amount := remaining,
                     Undelegations := Undelegations d
                       @ [\<lparr>Undelegation_Amount = amount, Epoch = epoch\<rparr>]\<rparr>
        in case minRemaining of
             None \<Rightarrow> Inr done
           | Some minimum \<Rightarrow>
               if 0 < remaining \<and> remaining < minimum
               then Inl (RemainingBelowMinimum
                      (''Minimum: '' @ decimal minimum @ '', Remaining: '' @ decimal remaining
                       @ '': remaining delegation must be 0 or >= 100 ONE''))
               else Inr done)"

text \<open>
  Modelled from the spec: \<^verbatim>\<open>Delegation.TotalInUndelegation\<close>, whose code is missing:
  the sum of the amounts of all entries.
\<close>

definition TotalInUndelegation :: "Delegation \<Rightarrow> int" where
  "TotalInUndelegation d = sum_list (map Undelegation_Amount (Undelegations d))"

text \<open>
  Modelled from the spec: \<^verbatim>\<open>Delegation.DeleteEntry\<close>, whose code is missing: it removes
  all entries of the given epoch and keeps the order of the others.
\<close>

definition DeleteEntry :: "Delegation \<Rightarrow> int \<Rightarrow> Delegation" where
  "DeleteEntry d epoch =
     d\<lparr>Undelegations := filter (\<lambda>u. Epoch u \<noteq> epoch) (Undelegations d)\<rparr>"

text \<open>
  Modelled from the spec: \<^verbatim>\<open>Delegation.RemoveUnlockedUndelegations\<close>, whose code is
  missing. An entry is released when the full period has passed
  (\<open>curEpoch - entry.epoch \<ge> lockPeriod\<close>) or, unless \<open>noEarlyUnlock\<close>, when the lock
  period is zero or the post-committee rule holds. The post-committee rule is the one
  section 8 of the specification fixes from the tests:
  \<open>curEpoch > lastEpochInCommittee\<close>, \<open>entry.epoch > lastEpochInCommittee\<close> and
  \<open>curEpoch - lastEpochInCommittee \<ge> lockPeriod\<close>. Released entries leave the list;
  the result is the sum of their amounts.
\<close>

definition unlocked :: "int \<Rightarrow> int \<Rightarrow> int \<Rightarrow> bool \<Rightarrow> Undelegation \<Rightarrow> bool" where
  "unlocked curEpoch lastEpochInCommittee lockPeriod noEarlyUnlock u =
     (curEpoch - Epoch u \<ge> lockPeriod
      \<or> (\<not> noEarlyUnlock
         \<and> (lockPeriod = 0
            \<or> (curEpoch > lastEpochInCommittee \<and> Epoch u > lastEpochInCommittee
               \<and> curEpoch - lastEpochInCommittee \<ge> lockPeriod))))"

text \<open>
  Modelled from the spec: the body of \<^verbatim>\<open>Delegation.RemoveUnlockedUndelegations\<close>, with
  \<open>unlocked\<close> as its release rule. Entries are examined in insertion order.
\<close>

definition RemoveUnlockedUndelegations ::
    "Delegation \<Rightarrow> int \<Rightarrow> int \<Rightarrow> int \<Rightarrow> bool \<Rightarrow> int \<times> Delegation" where
  "RemoveUnlockedUndelegations d curEpoch lastEpochInCommittee lockPeriod noEarlyUnlock =
     (let released = filter (unlocked curEpoch lastEpochInCommittee lockPeriod noEarlyUnlock)
                       (Undelegations d);
          kept = filter (\<lambda>u. \<not> unlocked curEpoch lastEpochInCommittee lockPeriod noEarlyUnlock u)
                   (Undelegations d)
      in (sum_list (map Undelegation_Amount released), d\<lparr>Undelegations := kept\<rparr>))"

section \<open>Written slots and example values\<close>

text \<open>
  A slot is an account and a storage key. \<open>slot_of\<close> reads the slot of a journal
  entry; \<open>header_keys\<close> are the seven header slots of a message and
  \<open>payload_keys first n\<close> the \<open>n\<close> slots of the router whose keys are the integers
  from \<open>first\<close> on, as 32 big-endian bytes.
\<close>

definition slot_of :: "bytes \<times> bytes \<times> bytes \<Rightarrow> bytes \<times> bytes" where
  "slot_of w = (fst w, fst (snd w))"

definition header_keys :: "OutgoingMessage \<Rightarrow> (bytes \<times> bytes) list" where
  "header_keys om = map (\<lambda>n. (RouterAddress, wordAddr om n)) [0, 1, 2, 3, 4, 5, 6]"

definition payload_keys :: "nat \<Rightarrow> nat \<Rightarrow> (bytes \<times> bytes) list" where
  "payload_keys first n = map (\<lambda>i. (RouterAddress, be_bytes 32 (first + i))) [0..<n]"

text \<open>
  Values for the examples. \<open>example_hash\<close> stands in for Keccak-256 where an example
  needs a concrete function; no theorem depends on what it computes.
\<close>

definition example_hash :: keccak where
  "example_hash data = word_of_nat (length data)"

definition example_receipt :: CXReceipt where
  "example_receipt =
     \<lparr>From = replicate 20 0x11, To = Some (replicate 20 0x22), ShardID = 0, ToShardID = 1,
      Amount = Some 1000, Nonce = 7, Payload = replicate 40 0xab, GasPrice = Some 1,
      GasBudget = Some 5, GasLeftoverTo = replicate 20 0x33, GasLimit = 21000\<rparr>"

definition example_message :: OutgoingMessage where
  "example_message =
     \<lparr>cxReceipt = example_receipt, msgAddress = replicate 20 0x44,
      payloadHash = replicate 31 0 @ [9]\<rparr>"

definition example_db :: StateDB where
  "example_db =
     \<lparr>storage = (\<lambda>addr key. replicate 32 0), journal = [], crossShardNonce = (\<lambda>addr. 7)\<rparr>"

text \<open>
  Stand-ins for the collaborators in the examples: an emitter that appends to the
  receipts of the EVM; a decoder that reads the method from the first four bytes and
  takes the bytes after them as the payload; an encoding of the values that are not
  nil; a gas formula linear in the length.
\<close>

definition example_EmitCXReceipt :: "EVM \<Rightarrow> CXReceipt \<Rightarrow> error + EVM" where
  "example_EmitCXReceipt evm r = Inr (evm\<lparr>CXReceipts := CXReceipts evm @ [r]\<rparr>)"

definition example_evm :: EVM where
  "example_evm =
     \<lparr>evm_ShardID = 0, evm_StateDB = example_db, IsS3 = True, IsIstanbul = True,
      CXReceipts = []\<rparr>"

definition example_retry_router :: Router where
  "example_retry_router =
     \<lparr>message = None, messageSend = None,
      messageRetrySend = Some \<lparr>msgAddr = replicate 20 0x44, retry_gasLimit = 30000,
                               retry_gasPrice = Some 2\<rparr>\<rparr>"

definition example_abi :: "(string, bytes) ABI" where
  "example_abi =
     \<lparr>MethodById = (\<lambda>input.
        if length input < 4 then Inl (Err ''data too short for abi method lookup'')
        else if take 4 input = [0xaa, 0, 0, 1] then Inr ''send''
        else if take 4 input = [0xaa, 0, 0, 2] then Inr ''retrySend''
        else Inl (Err ''no method with id'')),
      Name = (\<lambda>m. m),
      UnpackIntoMap = (\<lambda>m data. Inr data),
      ParseAddressFromKey = (\<lambda>args key. Inr (replicate 20 0x22)),
      ParseUint32FromKey = (\<lambda>args key. Inr 1),
      ParseBytesFromKey = (\<lambda>args key. Inr args),
      ParseBigIntFromKey = (\<lambda>args key. Inr (Some 1)),
      ParseUint64FromKey = (\<lambda>args key. Inr 21000)\<rparr>"

definition example_encode :: "message \<Rightarrow> error + bytes" where
  "example_encode v = Inr [0xc0]"

definition example_IntrinsicGas ::
    "bytes \<Rightarrow> bool \<Rightarrow> bool \<Rightarrow> bool \<Rightarrow> bool \<Rightarrow> error + 64 word" where
  "example_IntrinsicGas data contractCreation homestead istanbul staking =
     Inr (21000 + 68 * word_of_nat (length data))"

definition example_router :: Router where
  "example_router = \<lparr>message = None, messageSend = None, messageRetrySend = None\<rparr>"

definition example_contract :: Contract where
  "example_contract = \<lparr>Caller = replicate 20 0x11, Value = Some 1000\<rparr>"

text \<open>
  The delegation of the lockup tests, and \<open>undelegated amount entries\<close>, the same
  delegation with the given principal and pending \<open>(epoch, amount)\<close> entries.
\<close>

definition example_delegation :: Delegation where
  "example_delegation = NewDelegation (replicate 20 0x51) 100000"

definition undelegated :: "int \<Rightarrow> (int \<times> int) list \<Rightarrow> Delegation" where
  "undelegated amount entries =
     \<lparr>DelegatorAddress = replicate 20 0x51, Delegation_Amount = amount, Reward = 0,
      Undelegations = map (\<lambda>(e, a). \<lparr>Undelegation_Amount = a, Epoch = e\<rparr>) entries\<rparr>"

section \<open>Basic facts\<close>

declare storePayload_loop.simps [simp del]
declare loadPayload_loop.simps [simp del]

lemma length_be_bytes [simp]: "length (be_bytes n v) = n"
  by (induction n arbitrary: v) simp_all

lemma length_Sum256 [simp]: "length (Sum256 H data) = 32"
  by (simp add: Sum256_def)

lemma length_copy_bytes [simp]: "length (copy_bytes dst src) = length dst"
  by (simp add: copy_bytes_def)

lemma copy_bytes_same_length: "length src = length dst \<Longrightarrow> copy_bytes dst src = src"
  by (simp add: copy_bytes_def)

lemma length_wordAddr [simp]: "length (wordAddr om n) = 32"
  by (simp add: wordAddr_def Let_def)

lemma be_nat_snoc: "be_nat (bs @ [b]) = be_nat bs * 256 + unat b"
  by (simp add: be_nat_def)

lemma unat_byte_less: "unat (b :: byte) < 256"
  using unsigned_less [of b] by simp

text \<open>\<open>be_bytes\<close> and \<open>be_nat\<close> are inverse to each other on \<open>n\<close> bytes.\<close>

lemma be_bytes_be_nat: "length bs = n \<Longrightarrow> be_bytes n (be_nat bs) = bs"
proof (induction bs arbitrary: n rule: rev_induct)
  case Nil
  then show ?case by simp
next
  case (snoc b bs)
  then obtain m where n: "n = Suc m" and m: "length bs = m" by (cases n) auto
  have "(be_nat bs * 256 + unat b) div 256 = be_nat bs"
    using unat_byte_less [of b] by simp
  moreover have "(be_nat bs * 256 + unat b) mod 256 = unat b"
    using unat_byte_less [of b] by simp
  ultimately show ?case
    using snoc.IH [OF m] by (simp add: n be_nat_snoc)
qed

lemma be_nat_be_bytes: "be_nat (be_bytes n v) = v mod 256 ^ n"
proof (induction n arbitrary: v)
  case 0
  then show ?case by (simp add: be_nat_def)
next
  case (Suc n)
  have "unat (word_of_nat (v mod 256) :: byte) = v mod 256"
    by (simp add: unat_of_nat)
  then show ?case
    using Suc.IH [of "v div 256"]
    by (simp add: be_nat_snoc mod_mult2_eq)
qed

lemma FillBytes_fits:
  assumes "0 \<le> x" "x < 2 ^ (8 * n)"
  shows "FillBytes x n = Inr (be_bytes n (nat x))"
proof -
  have "(256::nat) ^ n = 2 ^ (8 * n)" by (simp add: power_mult)
  moreover have "nat x < 2 ^ (8 * n)" using assms by (simp add: nat_less_iff)
  ultimately show ?thesis using assms(1) by (simp add: FillBytes_def)
qed

lemma FillBytes_32:
  "0 \<le> x \<Longrightarrow> x < 2 ^ 256 \<Longrightarrow> FillBytes x 32 = Inr (be_bytes 32 (nat x))"
  using FillBytes_fits [of x 32] by simp

lemma FillBytes_Inr: "FillBytes x n = Inr k \<Longrightarrow> k = be_bytes n (nat \<bar>x\<bar>)"
  by (simp add: FillBytes_def split: if_splits)

section \<open>The message address\<close>

lemma CalculateAddressAndPayloadHash_valid:
  assumes "To (cxReceipt om) = Some t" "Amount (cxReceipt om) = Some a" "0 \<le> a" "a < 2 ^ 256"
  shows "CalculateAddressAndPayloadHash H om =
        Inr (drop 12 (Sum256 H ([0xff] @ From (cxReceipt om) @ t
               @ be_bytes 4 (unat (ShardID (cxReceipt om)))
               @ be_bytes 4 (unat (ToShardID (cxReceipt om)))
               @ Sum256 H (Payload (cxReceipt om)) @ be_bytes 32 (nat a)
               @ be_bytes 8 (unat (Nonce (cxReceipt om))))),
             Sum256 H (Payload (cxReceipt om)))"
  using assms
  by (simp add: CalculateAddressAndPayloadHash_def Let_def bnd_def deref_def FillBytes_32
        copy_bytes_same_length)

lemma NewOutgoingMessage_valid:
  assumes "To r = Some t" "Amount r = Some a" "0 \<le> a" "a < 2 ^ 256"
  shows "NewOutgoingMessage H r =
     Inr \<lparr>cxReceipt = r,
          msgAddress = drop 12 (Sum256 H ([0xff] @ From r @ t
               @ be_bytes 4 (unat (ShardID r)) @ be_bytes 4 (unat (ToShardID r))
               @ Sum256 H (Payload r) @ be_bytes 32 (nat a) @ be_bytes 8 (unat (Nonce r)))),
          payloadHash = Sum256 H (Payload r)\<rparr>"
  using assms
  by (simp add: NewOutgoingMessage_def CalculateAddressAndPayloadHash_valid bnd_def)

text \<open>
  Claim C1. For a receipt whose \<open>To\<close> and \<open>Amount\<close> are set and whose amount is an
  unsigned 256-bit number, the message address is the last 20 bytes (bytes 12 to 32)
  of the Keccak-256 digest of: the byte \<open>0xff\<close>, \<open>From\<close>, \<open>To\<close>, the shard id and
  the destination shard id as 4 big-endian bytes each, the Keccak-256 digest of the
  payload, the amount as 32 big-endian bytes, and the nonce as 8 big-endian bytes;
  the second component is the payload hash. For every receipt, changing \<open>GasPrice\<close>,
  \<open>GasLimit\<close>, \<open>GasBudget\<close> and \<open>GasLeftoverTo\<close> changes nothing in the result.
\<close>

theorem derive_address:
  "(To (cxReceipt om) = Some t \<and> Amount (cxReceipt om) = Some a \<and> 0 \<le> a \<and> a < 2 ^ 256 \<longrightarrow>
      CalculateAddressAndPayloadHash H om =
        Inr (drop 12 (Sum256 H ([0xff] @ From (cxReceipt om) @ t
               @ be_bytes 4 (unat (ShardID (cxReceipt om)))
               @ be_bytes 4 (unat (ToShardID (cxReceipt om)))
               @ Sum256 H (Payload (cxReceipt om)) @ be_bytes 32 (nat a)
               @ be_bytes 8 (unat (Nonce (cxReceipt om))))),
             Sum256 H (Payload (cxReceipt om))))
   \<and> CalculateAddressAndPayloadHash H
        (om\<lparr>cxReceipt := (cxReceipt om)
           \<lparr>GasPrice := gp, GasLimit := gl, GasBudget := gb, GasLeftoverTo := gt\<rparr>\<rparr>)
      = CalculateAddressAndPayloadHash H om"
proof (intro conjI impI)
  assume "To (cxReceipt om) = Some t \<and> Amount (cxReceipt om) = Some a \<and> 0 \<le> a \<and> a < 2 ^ 256"
  then show "CalculateAddressAndPayloadHash H om =
        Inr (drop 12 (Sum256 H ([0xff] @ From (cxReceipt om) @ t
               @ be_bytes 4 (unat (ShardID (cxReceipt om)))
               @ be_bytes 4 (unat (ToShardID (cxReceipt om)))
               @ Sum256 H (Payload (cxReceipt om)) @ be_bytes 32 (nat a)
               @ be_bytes 8 (unat (Nonce (cxReceipt om))))),
             Sum256 H (Payload (cxReceipt om)))"
    by (simp add: CalculateAddressAndPayloadHash_valid)
next
  show "CalculateAddressAndPayloadHash H
        (om\<lparr>cxReceipt := (cxReceipt om)
           \<lparr>GasPrice := gp, GasLimit := gl, GasBudget := gb, GasLeftoverTo := gt\<rparr>\<rparr>)
      = CalculateAddressAndPayloadHash H om"
    by (simp add: CalculateAddressAndPayloadHash_def Let_def bnd_def deref_def
          split: option.splits sum.splits)
qed

theorem derive_address_witness:
  "To (cxReceipt example_message) = Some (replicate 20 0x22)
   \<and> Amount (cxReceipt example_message) = Some 1000 \<and> (0::int) \<le> 1000 \<and> (1000::int) < 2 ^ 256
   \<and> CalculateAddressAndPayloadHash example_hash example_message =
        Inr (drop 12 (Sum256 example_hash ([0xff] @ replicate 20 0x11 @ replicate 20 0x22
               @ be_bytes 4 0 @ be_bytes 4 1
               @ Sum256 example_hash (replicate 40 0xab) @ be_bytes 32 1000
               @ be_bytes 8 7)),
             Sum256 example_hash (replicate 40 0xab))
   \<and> CalculateAddressAndPayloadHash example_hash
        (example_message\<lparr>cxReceipt := (cxReceipt example_message)
           \<lparr>GasPrice := Some 99, GasLimit := 1, GasBudget := None, GasLeftoverTo := []\<rparr>\<rparr>)
      = CalculateAddressAndPayloadHash example_hash example_message"
  using derive_address [where om = example_message and t = "replicate 20 0x22" and a = 1000
      and H = example_hash and gp = "Some 99" and gl = 1 and gb = None and gt = "[]"]
  by (simp add: example_message_def example_receipt_def)

section \<open>The header slot key\<close>

text \<open>
  Claim C3, as the code has it. The key of header word \<open>n\<close> is the 20-byte message
  address, the marker byte \<open>0x01\<close>, ten zero bytes and the byte \<open>n\<close>: 32 bytes in
  all. \<^verbatim>\<open>StoreMessage\<close> and \<^verbatim>\<open>LoadMessage\<close> both take their header keys from
  \<^verbatim>\<open>wordAddr\<close>.
\<close>

theorem wordAddr_layout:
  "length (msgAddress om) = 20 \<Longrightarrow>
   wordAddr om n = msgAddress om @ [0x01] @ replicate 10 0 @ [n]"
  apply (simp add: wordAddr_def Let_def copy_bytes_def list_update_append)
  apply (simp add: numeral_eq_Suc)
  done

theorem wordAddr_layout_witness:
  "length (msgAddress example_message) = 20
   \<and> wordAddr example_message 6 = replicate 20 0x44 @ [0x01] @ replicate 10 0 @ [6]"
  using wordAddr_layout [of example_message 6]
  by (simp add: example_message_def)

text \<open>
  Claim C3, as stated, puts eleven zero bytes between the marker and the index, which
  makes 33 bytes; the key has 32.
\<close>

theorem wordAddr_eleven_zero_bytes_counterexample:
  "length (msgAddress example_message) = 20
   \<and> wordAddr example_message 6 \<noteq> msgAddress example_message @ [0x01] @ replicate 11 0 @ [6]"
proof -
  have "length (wordAddr example_message 6)
      \<noteq> length (msgAddress example_message @ [0x01] @ replicate 11 0 @ [6])"
    by (simp add: example_message_def)
  then have "wordAddr example_message 6
      \<noteq> msgAddress example_message @ [0x01] @ replicate 11 0 @ [6]"
    by metis
  then show ?thesis by (simp add: example_message_def)
qed

section \<open>What StoreMessage writes\<close>

lemma journal_SetState: "journal (SetState db a k v) = journal db @ [(a, k, v)]"
  by (simp add: SetState_def)

lemma storage_SetState:
  "storage (SetState db a k v) a' k' = (if a' = a \<and> k' = k then v else storage db a' k')"
  by (simp add: SetState_def)

lemma crossShardNonce_SetState: "crossShardNonce (SetState db a k v) = crossShardNonce db"
  by (simp add: SetState_def)

lemma payload_keys_Suc:
  "payload_keys first (Suc n) = (RouterAddress, be_bytes 32 first) # payload_keys (Suc first) n"
proof -
  have "[0..<Suc n] = 0 # map Suc [0..<n]"
    by (simp add: upt_conv_Cons map_Suc_upt del: upt_Suc)
  then show ?thesis by (simp add: payload_keys_def comp_def del: upt_Suc)
qed

lemma words_step:
  assumes "32 \<le> (n::nat)"
  shows "(n + 31) div 32 = Suc ((n - 32 + 31) div 32)"
proof -
  have "n + 31 = (n - 32 + 31) + 32" using assms by simp
  then have "(n + 31) div 32 = ((n - 32 + 31) + 32) div 32" by simp
  also have "\<dots> = Suc ((n - 32 + 31) div 32)" by (simp only: div_add_self2)
  finally show ?thesis .
qed

lemma words_last: "0 < n \<Longrightarrow> n < 32 \<Longrightarrow> (n + 31) div 32 = Suc 0"
  by (rule div_nat_eqI) simp_all

lemma storePayload_loop_empty: "storePayload_loop offset key [] db = Inr db"
  by (subst storePayload_loop.simps) simp

lemma storePayload_loop_last:
  "0 < length data \<Longrightarrow> length data < 32 \<Longrightarrow>
   storePayload_loop offset key data db =
     Inr (SetState db RouterAddress key (copy_bytes (replicate 32 0) data))"
  by (subst storePayload_loop.simps) (simp add: Let_def)

lemma storePayload_loop_full:
  "32 \<le> length data \<Longrightarrow>
   storePayload_loop offset key data db =
     (case FillBytes (offset + 1) 32 of
        Inl e \<Rightarrow> Inl e
      | Inr key' \<Rightarrow> storePayload_loop (offset + 1) key' (drop 32 data)
          (SetState db RouterAddress key (copy_bytes (replicate 32 0) data)))"
  by (subst storePayload_loop.simps) (auto simp add: Let_def)

text \<open>The loop returns when the last key it computes still fits in 32 bytes.\<close>

lemma storePayload_loop_returns:
  "0 \<le> offset \<Longrightarrow> offset + int (length data div 32) < 2 ^ 256 \<Longrightarrow>
   \<exists>db'. storePayload_loop offset key data db = Inr db'"
proof (induction offset key data db rule: storePayload_loop.induct)
  case (1 offset key data db)
  show ?case
  proof (cases "length data < 32")
    case True
    then show ?thesis
      by (cases "data = []") (simp_all add: storePayload_loop_empty storePayload_loop_last)
  next
    case False
    then have full: "32 \<le> length data" and pos: "0 < length data" by auto
    have d: "length data div 32 = Suc (length (drop 32 data) div 32)"
      using full by (simp add: le_div_geq)
    have fits: "offset + 1 < 2 ^ 256" using "1.prems" d by simp
    have fb: "FillBytes (offset + 1) 32 = Inr (be_bytes 32 (nat (offset + 1)))"
      using "1.prems"(1) fits by (simp add: FillBytes_32)
    have "\<exists>db'. storePayload_loop (offset + 1) (be_bytes 32 (nat (offset + 1))) (drop 32 data)
            (SetState db RouterAddress key (copy_bytes (replicate 32 0) data)) = Inr db'"
      using "1.prems" d by (intro "1.IH" [OF pos refl refl False fb]) simp_all
    then show ?thesis
      by (simp add: storePayload_loop_full [OF full] fb)
  qed
qed

lemma storePayload_loop_writes:
  "storePayload_loop offset key data db = Inr db' \<Longrightarrow> 0 \<le> offset \<Longrightarrow>
   key = be_bytes 32 (nat offset) \<Longrightarrow>
   (\<exists>ws. journal db' = journal db @ ws
      \<and> map slot_of ws = payload_keys (nat offset) ((length data + 31) div 32))
   \<and> (\<forall>a k. (a, k) \<notin> set (payload_keys (nat offset) ((length data + 31) div 32))
         \<longrightarrow> storage db' a k = storage db a k)
   \<and> crossShardNonce db' = crossShardNonce db"
proof (induction offset key data db rule: storePayload_loop.induct)
  case (1 offset key data db)
  show ?case
  proof (cases "length data > 0")
    case False
    then have "data = []" by simp
    with "1.prems"(1) have "db' = db" by (simp add: storePayload_loop_empty)
    with \<open>data = []\<close> show ?thesis by (simp add: payload_keys_def)
  next
    case True
    note pos = this
    define db1 where "db1 = SetState db RouterAddress key (copy_bytes (replicate 32 0) data)"
    show ?thesis
    proof (cases "length data < 32")
      case True
      with pos "1.prems"(1) have "db' = db1"
        by (simp add: db1_def storePayload_loop_last)
      moreover have "(length data + 31) div 32 = Suc 0"
        using pos True by (simp add: words_last)
      ultimately show ?thesis
        using "1.prems"(3)
        by (simp add: db1_def payload_keys_def journal_SetState storage_SetState
              crossShardNonce_SetState slot_of_def)
    next
      case False
      then have full: "32 \<le> length data" by simp
      from "1.prems"(1) obtain key' where
        fb: "FillBytes (offset + 1) 32 = Inr key'" and
        rec: "storePayload_loop (offset + 1) key' (drop 32 data)
                (SetState db RouterAddress key (copy_bytes (replicate 32 0) data)) = Inr db'"
        unfolding storePayload_loop_full [OF full] by (auto split: sum.splits)
      have key': "key' = be_bytes 32 (nat (offset + 1))"
        using FillBytes_Inr [OF fb] "1.prems"(2) by simp
      have off: "0 \<le> offset + 1" using "1.prems"(2) by simp
      have IH: "(\<exists>ws. journal db' = journal db1 @ ws
           \<and> map slot_of ws
               = payload_keys (nat (offset + 1)) ((length (drop 32 data) + 31) div 32))
       \<and> (\<forall>a k. (a, k) \<notin> set (payload_keys (nat (offset + 1))
                                 ((length (drop 32 data) + 31) div 32))
             \<longrightarrow> storage db' a k = storage db1 a k)
       \<and> crossShardNonce db' = crossShardNonce db1"
        unfolding db1_def
        by (rule "1.IH" [OF pos refl refl False fb rec off key'])
      have n: "(length data + 31) div 32 = Suc ((length (drop 32 data) + 31) div 32)"
        using full by (simp add: words_step)
      have s: "nat (offset + 1) = Suc (nat offset)"
        using "1.prems"(2) by simp
      from IH obtain ws where
        ws: "journal db' = journal db1 @ ws" and
        keys: "map slot_of ws
               = payload_keys (Suc (nat offset)) ((length (drop 32 data) + 31) div 32)"
        unfolding s by blast
      have "journal db' = journal db @ (RouterAddress, key, copy_bytes (replicate 32 0) data) # ws"
        using ws by (simp add: db1_def journal_SetState)
      moreover have "map slot_of ((RouterAddress, key, copy_bytes (replicate 32 0) data) # ws)
          = payload_keys (nat offset) ((length data + 31) div 32)"
        unfolding n payload_keys_Suc using keys "1.prems"(3) by (simp add: slot_of_def)
      ultimately have j: "\<exists>ws. journal db' = journal db @ ws
          \<and> map slot_of ws = payload_keys (nat offset) ((length data + 31) div 32)"
        by blast
      from IH have st: "\<forall>a k. (a, k) \<notin> set (payload_keys (nat offset) ((length data + 31) div 32))
             \<longrightarrow> storage db' a k = storage db a k"
        unfolding n s payload_keys_Suc using "1.prems"(3)
        by (simp add: db1_def storage_SetState)
      from IH have c: "crossShardNonce db' = crossShardNonce db"
        by (simp add: db1_def crossShardNonce_SetState)
      from j st c show ?thesis by blast
    qed
  qed
qed

lemma storePayload_as_loop:
  "storePayload om db =
     storePayload_loop (int (be_nat (payloadHash om))) (payloadHash om)
       (Payload (cxReceipt om)) db"
  by (simp add: storePayload_def Let_def Big_def copy_bytes_same_length)

lemma storePayload_writes:
  assumes "storePayload om db = Inr db'" "length (payloadHash om) = 32"
  shows "(\<exists>ws. journal db' = journal db @ ws
            \<and> map slot_of ws = payload_keys (be_nat (payloadHash om))
                  ((length (Payload (cxReceipt om)) + 31) div 32))
   \<and> (\<forall>a k. (a, k) \<notin> set (payload_keys (be_nat (payloadHash om))
                  ((length (Payload (cxReceipt om)) + 31) div 32))
         \<longrightarrow> storage db' a k = storage db a k)
   \<and> crossShardNonce db' = crossShardNonce db"
proof -
  have loop: "storePayload_loop (int (be_nat (payloadHash om))) (payloadHash om)
          (Payload (cxReceipt om)) db = Inr db'"
    using assms(1) by (simp add: storePayload_as_loop)
  have key: "payloadHash om = be_bytes 32 (nat (int (be_nat (payloadHash om))))"
    using be_bytes_be_nat [OF assms(2)] by simp
  show ?thesis
    using storePayload_loop_writes [OF loop _ key] by simp
qed

text \<open>
  When \<^verbatim>\<open>StoreMessage\<close> returns, it has written the seven header words, in order, and
  then called \<^verbatim>\<open>storePayload\<close>.
\<close>

lemma StoreMessage_Inr:
  assumes "StoreMessage om db = Inr db'"
  shows "\<exists>v0 v1 v2 v3 v4 v5 v6.
    storePayload om
      (SetState (SetState (SetState (SetState (SetState (SetState (SetState db
         RouterAddress (wordAddr om 0) v0)
         RouterAddress (wordAddr om 1) v1)
         RouterAddress (wordAddr om 2) v2)
         RouterAddress (wordAddr om 3) v3)
         RouterAddress (wordAddr om 4) v4)
         RouterAddress (wordAddr om 5) v5)
         RouterAddress (wordAddr om 6) v6) = Inr db'"
  using assms unfolding StoreMessage_def Let_def bnd_def deref_def
  apply (auto split: option.splits sum.splits)
  apply (intro exI)
  apply assumption
  done

text \<open>
  \<^verbatim>\<open>StoreMessage\<close> returns for a receipt whose pointers are set, whose three amounts
  are unsigned 256-bit numbers, and whose payload slots do not run past the largest
  32-byte key.
\<close>

lemma StoreMessage_returns:
  assumes "To (cxReceipt om) = Some t"
    and "Amount (cxReceipt om) = Some a" "0 \<le> a" "a < 2 ^ 256"
    and "GasBudget (cxReceipt om) = Some b" "0 \<le> b" "b < 2 ^ 256"
    and "GasPrice (cxReceipt om) = Some p" "0 \<le> p" "p < 2 ^ 256"
    and "int (be_nat (payloadHash om)) + int (length (Payload (cxReceipt om)) div 32) < 2 ^ 256"
  shows "\<exists>db'. StoreMessage om db = Inr db'"
  using assms
  by (simp add: StoreMessage_def Let_def bnd_def deref_def FillBytes_32 storePayload_as_loop
        storePayload_loop_returns)

lemma be_nat_zeros: "be_nat (replicate n 0) = 0"
proof (induction n)
  case 0
  then show ?case by (simp add: be_nat_def)
next
  case (Suc n)
  have "replicate (Suc n) (0::byte) = replicate n 0 @ [0]"
    by (simp add: replicate_append_same)
  then show ?case using Suc by (simp only: be_nat_snoc) simp
qed

lemma be_nat_example: "be_nat (payloadHash example_message) = 9"
  by (simp add: example_message_def be_nat_snoc be_nat_zeros)

text \<open>
  Claim C9. When \<^verbatim>\<open>StoreMessage\<close> returns, the \<^verbatim>\<open>SetState\<close> calls it has made are,
  in order, one for each of the seven header slots and one for each started 32-byte
  word of the payload (none for an empty payload), the payload keys counting up from
  the payload hash; every one of these slots is in the storage of \<open>RouterAddress\<close>;
  the storage of every other slot, of the router and of any other account, is as it
  was, and so are the cross-shard nonces.
\<close>

theorem StoreMessage_writes:
  assumes "StoreMessage om db = Inr db'" "length (payloadHash om) = 32"
  shows "(\<exists>ws. journal db' = journal db @ ws
            \<and> map slot_of ws = header_keys om
                 @ payload_keys (be_nat (payloadHash om))
                     ((length (Payload (cxReceipt om)) + 31) div 32))
   \<and> (\<forall>a k. (a, k) \<notin> set (header_keys om
                 @ payload_keys (be_nat (payloadHash om))
                     ((length (Payload (cxReceipt om)) + 31) div 32))
         \<longrightarrow> storage db' a k = storage db a k)
   \<and> (\<forall>s \<in> set (header_keys om
                 @ payload_keys (be_nat (payloadHash om))
                     ((length (Payload (cxReceipt om)) + 31) div 32)). fst s = RouterAddress)
   \<and> crossShardNonce db' = crossShardNonce db"
proof -
  let ?P = "payload_keys (be_nat (payloadHash om)) ((length (Payload (cxReceipt om)) + 31) div 32)"
  from StoreMessage_Inr [OF assms(1)] obtain v0 v1 v2 v3 v4 v5 v6 where
    sp: "storePayload om
      (SetState (SetState (SetState (SetState (SetState (SetState (SetState db
         RouterAddress (wordAddr om 0) v0)
         RouterAddress (wordAddr om 1) v1)
         RouterAddress (wordAddr om 2) v2)
         RouterAddress (wordAddr om 3) v3)
         RouterAddress (wordAddr om 4) v4)
         RouterAddress (wordAddr om 5) v5)
         RouterAddress (wordAddr om 6) v6) = Inr db'"
    by blast
  note w = storePayload_writes [OF sp assms(2)]
  from w obtain ws where
    ws: "journal db' = journal db @ [(RouterAddress, wordAddr om 0, v0),
           (RouterAddress, wordAddr om 1, v1), (RouterAddress, wordAddr om 2, v2),
           (RouterAddress, wordAddr om 3, v3), (RouterAddress, wordAddr om 4, v4),
           (RouterAddress, wordAddr om 5, v5), (RouterAddress, wordAddr om 6, v6)] @ ws"
    and keys: "map slot_of ws = ?P"
    by (auto simp add: journal_SetState)
  have j: "\<exists>ws. journal db' = journal db @ ws \<and> map slot_of ws = header_keys om @ ?P"
    using ws keys by (simp add: header_keys_def slot_of_def)
  have st: "\<forall>a k. (a, k) \<notin> set (header_keys om @ ?P) \<longrightarrow> storage db' a k = storage db a k"
    using w by (auto simp add: header_keys_def storage_SetState)
  have r: "\<forall>s \<in> set (header_keys om @ ?P). fst s = RouterAddress"
    by (auto simp add: header_keys_def payload_keys_def)
  have c: "crossShardNonce db' = crossShardNonce db"
    using w by (simp add: crossShardNonce_SetState)
  from j st r c show ?thesis by blast
qed

theorem StoreMessage_writes_witness:
  "\<exists>db'. StoreMessage example_message example_db = Inr db'
     \<and> length (payloadHash example_message) = 32
     \<and> (\<exists>ws. journal db' = journal example_db @ ws
           \<and> map slot_of ws = header_keys example_message @ payload_keys 9 2)
     \<and> crossShardNonce db' = crossShardNonce example_db"
proof -
  have "\<exists>db'. StoreMessage example_message example_db = Inr db'"
    by (rule StoreMessage_returns [where t = "replicate 20 0x22" and a = 1000 and b = 5 and p = 1])
      (simp_all add: be_nat_example, simp_all add: example_message_def example_receipt_def)
  then obtain db' where ok: "StoreMessage example_message example_db = Inr db'" by blast
  have len: "length (payloadHash example_message) = 32"
    by (simp add: example_message_def)
  have n: "(length (Payload (cxReceipt example_message)) + 31) div 32 = 2"
    by (simp add: example_message_def example_receipt_def)
  show ?thesis
    using StoreMessage_writes [OF ok len] ok len unfolding n be_nat_example by blast
qed

section \<open>Loading a message\<close>

text \<open>
  \<^verbatim>\<open>LoadMessage\<close> allocates the receipt as \<^verbatim>\<open>&types.CXReceipt{}\<close> (storage.go, line
  154), so its pointer \<open>To\<close> is nil, and then slices the array behind it in
  \<^verbatim>\<open>copy(cxReceipt.To[:], buf[:20])\<close> (line 164): a nil pointer dereference, before
  the receipt is complete and before either check. \<open>To\<close> is a pointer because
  \<^verbatim>\<open>RunWriteCapable\<close> assigns \<^verbatim>\<open>&router.messageSend.to\<close> to it (main.go, line 82).
\<close>

lemma LoadMessage_nil_To: "LoadMessage H a db = Inl (Panic NilPointerDereference)"
  by (simp add: LoadMessage_def Let_def bnd_def deref_def CXReceipt_zero_def)

text \<open>
  Claim C6 says that \<^verbatim>\<open>LoadMessage\<close> returns a receipt exactly when the recomputed
  address and payload hash match, and a verification error otherwise. The code
  reaches neither outcome: for every address and every state it panics.
\<close>

theorem LoadMessage_never_returns:
  "LoadMessage H addr db = Inl (Panic NilPointerDereference)"
  by (rule LoadMessage_nil_To)

lemma CalculateAddressAndPayloadHash_example:
  "\<exists>a. CalculateAddressAndPayloadHash example_hash
          \<lparr>cxReceipt = example_receipt, msgAddress = x, payloadHash = y\<rparr>
        = Inr (a, be_bytes 32 40)"
  by (simp add: CalculateAddressAndPayloadHash_def Let_def bnd_def deref_def FillBytes_32
        copy_bytes_same_length example_receipt_def Sum256_def example_hash_def)

text \<open>
  Claim C2 says that loading at the address a receipt was stored under returns the
  receipt. At the example receipt the message is built and stored, and the load
  panics.
\<close>

theorem store_then_load_panics:
  "\<exists>om db'. NewOutgoingMessage example_hash example_receipt = Inr om
     \<and> StoreMessage om example_db = Inr db'
     \<and> LoadMessage example_hash (msgAddress om) db' = Inl (Panic NilPointerDereference)"
proof -
  from CalculateAddressAndPayloadHash_example obtain a where
    "CalculateAddressAndPayloadHash example_hash
       \<lparr>cxReceipt = example_receipt, msgAddress = replicate 20 0, payloadHash = replicate 32 0\<rparr>
     = Inr (a, be_bytes 32 40)"
    by blast
  then have new: "NewOutgoingMessage example_hash example_receipt
      = Inr \<lparr>cxReceipt = example_receipt, msgAddress = a, payloadHash = be_bytes 32 40\<rparr>"
    by (simp add: NewOutgoingMessage_def bnd_def)
  have "\<exists>db'. StoreMessage
          \<lparr>cxReceipt = example_receipt, msgAddress = a, payloadHash = be_bytes 32 40\<rparr>
          example_db = Inr db'"
    by (rule StoreMessage_returns [where t = "replicate 20 0x22" and a = 1000 and b = 5 and p = 1])
      (simp_all add: be_nat_be_bytes, simp_all add: example_receipt_def)
  then obtain db' where
    "StoreMessage \<lparr>cxReceipt = example_receipt, msgAddress = a, payloadHash = be_bytes 32 40\<rparr>
       example_db = Inr db'"
    by blast
  with new show ?thesis
    using LoadMessage_nil_To by blast
qed

section \<open>Running the router\<close>

lemma RunWriteCapable_retry_panics:
  "RunWriteCapable H EmitCXReceipt
     \<lparr>message = m, messageSend = None, messageRetrySend = mr\<rparr> evm contract input
   = (Inl (Panic NilPointerDereference), evm)"
  by (simp add: RunWriteCapable_def LoadMessage_nil_To deref_def split: option.splits)

text \<open>
  Claim C4 says that a retry emits the stored receipt with the new gas price and gas
  limit and returns the message address. On the retry path (no parsed \<^verbatim>\<open>send\<close>) the
  call panics, in \<^verbatim>\<open>LoadMessage\<close> or, when no \<^verbatim>\<open>retrySend\<close> was parsed either, at
  \<^verbatim>\<open>router.messageRetrySend.msgAddr\<close>; nothing is emitted and the EVM is as it was.
\<close>

theorem retrySend_panics:
  "RunWriteCapable H EmitCXReceipt
     \<lparr>message = m, messageSend = None, messageRetrySend = mr\<rparr> evm contract input
   = (Inl (Panic NilPointerDereference), evm)"
  by (rule RunWriteCapable_retry_panics)


section \<open>Required gas\<close>

text \<open>The product of \<^verbatim>\<open>uint64\<close> values wraps around at \<open>2 ^ 64\<close>.\<close>

lemma uint64_times_length:
  "unat (g * word_of_nat n :: 64 word) = (unat g * n) mod 2 ^ 64"
  by (simp add: unat_word_ariths unat_of_nat mod_mult_right_eq)

lemma parse_example_send:
  "parseMethod example_abi [0xaa, 0, 0, 1, 7, 7, 7] =
     Inr (Some (MessageSend \<lparr>to = replicate 20 0x22, toShard = 1, payload = [7, 7, 7],
        gasPrice = Some 1, gasBudget = Some 1, gasLimit = 21000,
        gasLeftoverTo = replicate 20 0x22\<rparr>))"
  by (simp add: parseMethod_def example_abi_def bnd_def)

lemma parse_example_retry:
  "parseMethod example_abi [0xaa, 0, 0, 2] =
     Inr (Some (MessageRetrySend \<lparr>msgAddr = replicate 20 0x22, retry_gasLimit = 21000,
        retry_gasPrice = Some 1\<rparr>))"
  by (simp add: parseMethod_def example_abi_def bnd_def)

lemma parse_example_fail:
  "parseMethod example_abi [1, 2, 3, 4] = Inl (Err ''no method with id'')"
  by (simp add: parseMethod_def example_abi_def bnd_def)

text \<open>
  For an input that parses as \<^verbatim>\<open>send\<close> the gas is \<^verbatim>\<open>SstoreSetGas\<close> times the payload
  length, in \<^verbatim>\<open>uint64\<close> arithmetic; for one that parses as \<^verbatim>\<open>retrySend\<close> it is three
  times \<^verbatim>\<open>SstoreSetGas\<close>.
\<close>

lemma RequiredGas_send:
  "parseMethod abi input = Inr (Some (MessageSend ms)) \<Longrightarrow>
   fst (RequiredGas abi encode ig g router evm contract input)
     = Inr (g * word_of_nat (length (payload ms)))"
  by (simp add: RequiredGas_def Let_def)

lemma RequiredGas_retrySend:
  "parseMethod abi input = Inr (Some (MessageRetrySend mr)) \<Longrightarrow>
   fst (RequiredGas abi encode ig g router evm contract input) = Inr (3 * g)"
  by (simp add: RequiredGas_def Let_def)

lemma RequiredGas_examples:
  "fst (RequiredGas example_abi example_encode example_IntrinsicGas 20000 example_router
     example_evm example_contract [0xaa, 0, 0, 1, 7, 7, 7]) = Inr 60000"
  "fst (RequiredGas example_abi example_encode example_IntrinsicGas 20000 example_router
     example_evm example_contract [0xaa, 0, 0, 2]) = Inr 60000"
  by (simp_all add: RequiredGas_send [OF parse_example_send]
        RequiredGas_retrySend [OF parse_example_retry])

text \<open>
  Claim C5 says that an input that fails to parse is charged the intrinsic data cost
  of the re-encoded parsed value, without a panic, and the comment of the code
  (main.go, lines 33 and 34) says that invalid calls are charged base gas and data
  cost. The code does neither: when parsing returns an error the parsed value is
  nil, encoding it panics, and the panic leaves \<^verbatim>\<open>RequiredGas\<close>; no gas is computed.
  When parsing itself panics, that panic leaves \<^verbatim>\<open>RequiredGas\<close>.
\<close>

theorem RequiredGas_parse_failure_panics:
  "parseMethod abi input = Inl e \<Longrightarrow>
   fst (RequiredGas abi encode ig g router evm contract input)
     = Inl (Panic (case e of Panic p \<Rightarrow> p | _ \<Rightarrow> ReflectTypeOfZeroValue))"
  by (cases e) (simp_all add: RequiredGas_def Let_def EncodeToBytes_def)

theorem RequiredGas_parse_failure_panics_witness:
  "parseMethod example_abi [1, 2, 3, 4] = Inl (Err ''no method with id'')
   \<and> fst (RequiredGas example_abi example_encode example_IntrinsicGas 20000 example_router
        example_evm example_contract [1, 2, 3, 4]) = Inl (Panic ReflectTypeOfZeroValue)"
  using RequiredGas_parse_failure_panics [where abi = example_abi and input = "[1, 2, 3, 4]"
      and e = "Err ''no method with id''" and encode = example_encode
      and ig = example_IntrinsicGas and g = 20000 and router = example_router
      and evm = example_evm and contract = example_contract]
  by (simp add: parse_example_fail)

section \<open>The lockup engine against its tests\<close>

text \<open>
  The tests of the sources, replayed in their order: \<^verbatim>\<open>TestUndelegate\<close>,
  \<^verbatim>\<open>TestTotalInUndelegation\<close>, \<^verbatim>\<open>TestDeleteEntry\<close>,
  \<^verbatim>\<open>TestUnlockedLastEpochInCommittee\<close>, \<^verbatim>\<open>TestUnlockedLastEpochInCommitteeFail\<close>,
  \<^verbatim>\<open>TestUnlockedFullPeriod\<close>, \<^verbatim>\<open>TestQuickUnlock\<close>, \<^verbatim>\<open>TestUnlockedFullPeriodFail\<close>,
  \<^verbatim>\<open>TestUnlockedPremature\<close>, \<^verbatim>\<open>TestNoEarlyUnlock\<close> and
  \<^verbatim>\<open>TestMinRemainingDelegation\<close>. The tests that share the package-level delegation
  start from the entries the tests before them left.
\<close>

lemma test_Undelegate:
  "Undelegate example_delegation 10 1000 None = Inr (undelegated 99000 [(10, 1000)])"
  "Undelegate (undelegated 99000 [(10, 1000)]) 12 2000 None
     = Inr (undelegated 97000 [(10, 1000), (12, 2000)])"
  "TotalInUndelegation (undelegated 97000 [(10, 1000), (12, 2000)]) = 3000"
  by (simp_all add: Undelegate_def example_delegation_def NewDelegation_def undelegated_def
        TotalInUndelegation_def)

lemma test_DeleteEntry:
  "Undelegate (undelegated 97000 [(10, 1000), (12, 2000)]) 15 3000 None
     = Inr (undelegated 94000 [(10, 1000), (12, 2000), (15, 3000)])"
  "DeleteEntry (undelegated 94000 [(10, 1000), (12, 2000), (15, 3000)]) 12
     = undelegated 94000 [(10, 1000), (15, 3000)]"
  by (simp_all add: Undelegate_def undelegated_def DeleteEntry_def)

lemma test_UnlockedLastEpochInCommittee:
  "Undelegate (undelegated 94000 [(10, 1000), (15, 3000)]) 21 4000 None
     = Inr (undelegated 90000 [(10, 1000), (15, 3000), (21, 4000)])"
  "RemoveUnlockedUndelegations (undelegated 90000 [(10, 1000), (15, 3000), (21, 4000)])
     24 17 7 False = (8000, undelegated 90000 [])"
  by (simp_all add: Undelegate_def undelegated_def RemoveUnlockedUndelegations_def
        unlocked_def)

lemma test_UnlockedLastEpochInCommitteeFail:
  "Undelegate example_delegation 21 4000 None = Inr (undelegated 96000 [(21, 4000)])"
  "RemoveUnlockedUndelegations (undelegated 96000 [(21, 4000)]) 24 18 7 False
     = (0, undelegated 96000 [(21, 4000)])"
  by (simp_all add: Undelegate_def undelegated_def RemoveUnlockedUndelegations_def
        unlocked_def example_delegation_def NewDelegation_def)

lemma test_UnlockedFullPeriod:
  "RemoveUnlockedUndelegations (undelegated 86000 [(27, 4000)]) 34 34 7 False
     = (4000, undelegated 86000 [])"
  "RemoveUnlockedUndelegations (undelegated 82000 [(44, 4000)]) 44 44 0 False
     = (4000, undelegated 82000 [])"
  "RemoveUnlockedUndelegations (undelegated 96000 [(28, 4000)]) 34 34 7 False
     = (0, undelegated 96000 [(28, 4000)])"
  "RemoveUnlockedUndelegations (undelegated 78000 [(42, 4000)]) 44 44 7 False
     = (0, undelegated 78000 [(42, 4000)])"
  "RemoveUnlockedUndelegations (undelegated 74000 [(42, 4000), (21, 4000)]) 24 17 7 True
     = (0, undelegated 74000 [(42, 4000), (21, 4000)])"
  by (simp_all add: undelegated_def RemoveUnlockedUndelegations_def unlocked_def)

lemma test_MinRemainingDelegation:
  "Undelegate example_delegation 10 50001 (Some 50000)
     = Inl (RemainingBelowMinimum
         ''Minimum: 50000, Remaining: 49999: remaining delegation must be 0 or >= 100 ONE'')"
  "Undelegate example_delegation 11 50000 (Some 50000)
     = Inr (undelegated 50000 [(11, 50000)])"
  "Undelegate (undelegated 50000 [(11, 50000)]) 12 50000 (Some 50000)
     = Inr (undelegated 0 [(11, 50000), (12, 50000)])"
  by (simp_all add: Undelegate_def undelegated_def example_delegation_def NewDelegation_def
        decimal_def digit_char_def)

lemma sum_list_filter_split:
  "sum_list (map f (filter P xs)) + sum_list (map f (filter (\<lambda>x. \<not> P x) xs))
     = (sum_list (map f xs) :: int)"
  by (induction xs) simp_all

text \<open>
  Claim C7, as the tests have it. With \<open>noEarlyUnlock\<close> false, when the current epoch
  is after the last epoch in committee and at least a lock period has passed since
  that epoch, every entry requested after the last epoch in committee is released: it
  is no longer in the list, and the total returned is the sum of the amounts that
  left the list.
\<close>

theorem post_committee_unlock:
  assumes "lastEpochInCommittee < curEpoch"
    and "lockPeriod \<le> curEpoch - lastEpochInCommittee"
  shows "(\<forall>u \<in> set (Undelegations d). lastEpochInCommittee < Epoch u \<longrightarrow>
            u \<notin> set (Undelegations (snd (RemoveUnlockedUndelegations d curEpoch
                        lastEpochInCommittee lockPeriod False))))
     \<and> fst (RemoveUnlockedUndelegations d curEpoch lastEpochInCommittee lockPeriod False)
         = sum_list (map Undelegation_Amount (Undelegations d))
           - sum_list (map Undelegation_Amount (Undelegations (snd
               (RemoveUnlockedUndelegations d curEpoch lastEpochInCommittee lockPeriod False))))"
proof -
  have "\<forall>u \<in> set (Undelegations d). lastEpochInCommittee < Epoch u \<longrightarrow>
          unlocked curEpoch lastEpochInCommittee lockPeriod False u"
    using assms by (simp add: unlocked_def)
  moreover have "sum_list (map Undelegation_Amount
        (filter (unlocked curEpoch lastEpochInCommittee lockPeriod False) (Undelegations d)))
      = sum_list (map Undelegation_Amount (Undelegations d))
        - sum_list (map Undelegation_Amount
            (filter (\<lambda>u. \<not> unlocked curEpoch lastEpochInCommittee lockPeriod False u)
               (Undelegations d)))"
    using sum_list_filter_split [of Undelegation_Amount
        "unlocked curEpoch lastEpochInCommittee lockPeriod False" "Undelegations d"]
    by simp
  ultimately show ?thesis
    by (simp add: RemoveUnlockedUndelegations_def Let_def)
qed

theorem post_committee_unlock_witness:
  "(17::int) < 24 \<and> (7::int) \<le> 24 - 17
   \<and> \<lparr>Undelegation_Amount = 4000, Epoch = 21\<rparr>
        \<in> set (Undelegations (undelegated 90000 [(10, 1000), (15, 3000), (21, 4000)]))
   \<and> \<lparr>Undelegation_Amount = 4000, Epoch = 21\<rparr>
        \<notin> set (Undelegations (snd (RemoveUnlockedUndelegations
              (undelegated 90000 [(10, 1000), (15, 3000), (21, 4000)]) 24 17 7 False)))
   \<and> fst (RemoveUnlockedUndelegations
              (undelegated 90000 [(10, 1000), (15, 3000), (21, 4000)]) 24 17 7 False) = 8000"
  using post_committee_unlock [of 17 24 7 "undelegated 90000 [(10, 1000), (15, 3000), (21, 4000)]"]
  by (simp add: test_UnlockedLastEpochInCommittee(2)) (simp add: undelegated_def)

text \<open>
  Claim C7, as stated, puts no condition on the lock period. In
  \<^verbatim>\<open>TestUnlockedLastEpochInCommitteeFail\<close> the current epoch 24 and the entry's epoch
  21 are both after the last epoch in committee 18, and with a lock period of 7 the
  entry stays and the total is 0.
\<close>

theorem post_committee_unlock_counterexample:
  "(18::int) < 24
   \<and> \<lparr>Undelegation_Amount = 4000, Epoch = 21\<rparr>
        \<in> set (Undelegations (undelegated 96000 [(21, 4000)]))
   \<and> 18 < Epoch \<lparr>Undelegation_Amount = 4000, Epoch = 21\<rparr>
   \<and> RemoveUnlockedUndelegations (undelegated 96000 [(21, 4000)]) 24 18 7 False
       = (0, undelegated 96000 [(21, 4000)])"
  by (simp add: test_UnlockedLastEpochInCommitteeFail(2)) (simp add: undelegated_def)

text \<open>
  Claim C8, with the validation that comes first. For an amount that is positive and
  at most the principal: with a minimum given, a remainder strictly between 0 and the
  minimum fails with the message
  \<^verbatim>\<open>Minimum: <min>, Remaining: <rem>: remaining delegation must be 0 or >= 100 ONE\<close>,
  both numbers in decimal; a remainder of 0 or of at least the minimum succeeds,
  subtracts the amount and appends the entry.
\<close>

theorem Undelegate_minimum:
  assumes "0 < amount" and "amount \<le> Delegation_Amount d"
  shows "(0 < Delegation_Amount d - amount \<and> Delegation_Amount d - amount < minimum \<longrightarrow>
            Undelegate d epoch amount (Some minimum)
              = Inl (RemainingBelowMinimum
                  (''Minimum: '' @ decimal minimum @ '', Remaining: ''
                   @ decimal (Delegation_Amount d - amount)
                   @ '': remaining delegation must be 0 or >= 100 ONE'')))
     \<and> (Delegation_Amount d - amount = 0 \<or> minimum \<le> Delegation_Amount d - amount \<longrightarrow>
            Undelegate d epoch amount (Some minimum)
              = Inr (d\<lparr>Delegation_Amount := Delegation_Amount d - amount,
                       Undelegations := Undelegations d
                         @ [\<lparr>Undelegation_Amount = amount, Epoch = epoch\<rparr>]\<rparr>))"
  using assms by (auto simp add: Undelegate_def Let_def)

theorem Undelegate_minimum_witness:
  "(0::int) < 50001 \<and> 50001 \<le> Delegation_Amount example_delegation
   \<and> 0 < Delegation_Amount example_delegation - 50001
   \<and> Delegation_Amount example_delegation - 50001 < 50000
   \<and> Undelegate example_delegation 10 50001 (Some 50000)
       = Inl (RemainingBelowMinimum
           ''Minimum: 50000, Remaining: 49999: remaining delegation must be 0 or >= 100 ONE'')
   \<and> (0::int) < 50000 \<and> 50000 \<le> Delegation_Amount example_delegation
   \<and> 50000 \<le> Delegation_Amount example_delegation - 50000
   \<and> Undelegate example_delegation 11 50000 (Some 50000)
       = Inr (undelegated 50000 [(11, 50000)])"
  using Undelegate_minimum [of 50001 example_delegation 50000 10]
    Undelegate_minimum [of 50000 example_delegation 50000 11]
  by (simp add: example_delegation_def NewDelegation_def undelegated_def decimal_def
        digit_char_def)

text \<open>
  Claim C8, as stated, covers every amount. An amount of 0 leaves a remainder
  strictly between 0 and the minimum here, and fails as an invalid amount instead.
\<close>

theorem Undelegate_zero_amount_counterexample:
  "0 < Delegation_Amount (undelegated 40000 []) - 0
   \<and> Delegation_Amount (undelegated 40000 []) - 0 < 50000
   \<and> Undelegate (undelegated 40000 []) 10 0 (Some 50000) = Inl InvalidAmount"
  by (simp add: undelegated_def Undelegate_def)

end
